theory Spec2Isabelle
  imports Main "HOL-Library.AList"
begin

section \<open>JavaScript values and objects\<close>

text \<open>
  The values that travel through \<^verbatim>\<open>request\<close>: parameter values, decoded response bodies
  and the fields of an error body. Numbers are restricted to integers (status codes,
  timestamps); strings are sequences of octets; a blob is an opaque octet sequence.
\<close>

datatype jsval =
    JUndefined
  | JNull
  | JBool bool
  | JNum int
  | JStr string
  | JBlob string
  | JArr "jsval list"
  | JObj "(string \<times> jsval) list"

text \<open>
  \<^verbatim>\<open>IParams\<close> is an object with string keys: an association list in the order in which
  the keys were created. A well-formed object has each key once. Parameter names are
  identifiers; keys that look like array indices, which JavaScript would enumerate first,
  are not told apart.
\<close>

type_synonym IParams = "(string \<times> jsval) list"

text \<open>Reading a property: \<^verbatim>\<open>obj.k\<close> is \<^verbatim>\<open>undefined\<close> when the key is absent.\<close>

definition get_prop :: "IParams \<Rightarrow> string \<Rightarrow> jsval" where
  "get_prop obj k = (case map_of obj k of None \<Rightarrow> JUndefined | Some v \<Rightarrow> v)"

text \<open>
  Writing a property, \<^verbatim>\<open>obj.k = v\<close>: an existing key keeps its place and takes the new
  value, a new key goes to the end.
\<close>

definition set_prop :: "string \<Rightarrow> jsval \<Rightarrow> IParams \<Rightarrow> IParams" where
  "set_prop k v obj = AList.update k v obj"

text \<open>
  Object spread, \<^verbatim>\<open>{ ...target, ...src }\<close>: the properties of \<^verbatim>\<open>src\<close> are written
  one after the other, in their order, over a copy of \<^verbatim>\<open>target\<close>.
\<close>

fun spread :: "IParams \<Rightarrow> IParams \<Rightarrow> IParams" where
  "spread target [] = target"
| "spread target ((k, v) # src) = spread (set_prop k v target) src"

section \<open>Failures\<close>

text \<open>
  What a promise is rejected with: the structured \<^verbatim>\<open>RequestError\<close> of the error checker,
  or any other failure (transport, authentication, a body that does not parse).
  A promise that has settled is a value of \<open>rejection + 'a\<close>.
\<close>

datatype rejection =
    RequestError (message: jsval) (code: jsval) (messageCode: jsval) (details: jsval)
      (response: jsval)
  | Failure string

type_synonym 'a promise = "rejection + 'a"

section \<open>The interfaces of \<^verbatim>\<open>request.ts\<close>\<close>

datatype HTTPMethods = GET | POST

text \<open>
  An optional property \<^verbatim>\<open>k?: T\<close> of an options object: the key is absent, or it is
  present and holds \<^verbatim>\<open>undefined\<close>, or it holds a value. The spread treats the first
  two differently.
\<close>

datatype 'a optional = Absent | Undefined | Given 'a

record IAuthenticationManager =
  getToken :: "string \<Rightarrow> string promise"

record IRequestOptions =
  httpMethod :: "HTTPMethods optional"
  authentication :: "IAuthenticationManager optional"

text \<open>The body of a POST: the parts appended to a \<^verbatim>\<open>FormData\<close>, in order.\<close>

datatype part = StringPart string | FilePart string

type_synonym FormData = "(string \<times> part) list"

text \<open>
  \<^verbatim>\<open>RequestInit\<close>, the second argument of \<^verbatim>\<open>fetch\<close>; \<open>None\<close> is \<^verbatim>\<open>undefined\<close>.
  Its field \<^verbatim>\<open>method\<close> is written \<open>init_method\<close>.
\<close>

record RequestInit =
  init_method :: "HTTPMethods option"
  body :: "FormData option"

text \<open>
  The response of \<^verbatim>\<open>fetch\<close>, as far as \<^verbatim>\<open>request\<close> reads it: what each of the three
  body readers settles to.
\<close>

record Response =
  response_json :: "jsval promise"
  response_text :: "string promise"
  response_blob :: "string promise"

text \<open>
  What \<^verbatim>\<open>request.ts\<close> imports and calls: the platform's \<^verbatim>\<open>fetch\<close> and the three
  helpers of \<^verbatim>\<open>./utils\<close>. \<^verbatim>\<open>checkForErrors\<close> either returns (\<open>None\<close>) or throws.
\<close>

record deps =
  fetch :: "string \<Rightarrow> RequestInit \<Rightarrow> Response promise"
  encodeQueryString :: "IParams \<Rightarrow> string"
  encodeFormData :: "IParams \<Rightarrow> FormData"
  checkForErrors :: "jsval \<Rightarrow> rejection option"

text \<open>The calls \<^verbatim>\<open>request\<close> makes, in program order.\<close>

datatype event =
    GetToken string
  | EncodeQueryString IParams
  | EncodeFormData IParams
  | Fetch string RequestInit
  | ReadJson
  | ReadText
  | ReadBlob
  | CheckForErrors jsval

section \<open>\<^verbatim>\<open>request\<close>\<close>

text \<open>
  \<^verbatim>\<open>{ ...{ httpMethod: "POST" }, ...requestOptions }\<close>, destructured into its two
  fields; spreading \<^verbatim>\<open>undefined\<close> adds nothing.
\<close>

definition merged_httpMethod :: "IRequestOptions option \<Rightarrow> HTTPMethods option" where
  "merged_httpMethod requestOptions =
     (case requestOptions of
        None \<Rightarrow> Some POST
      | Some ro \<Rightarrow>
          (case httpMethod ro of
             Absent \<Rightarrow> Some POST
           | Undefined \<Rightarrow> None
           | Given m \<Rightarrow> Some m))"

definition merged_authentication ::
    "IRequestOptions option \<Rightarrow> IAuthenticationManager option" where
  "merged_authentication requestOptions =
     (case requestOptions of
        None \<Rightarrow> None
      | Some ro \<Rightarrow>
          (case authentication ro of
             Absent \<Rightarrow> None
           | Undefined \<Rightarrow> None
           | Given a \<Rightarrow> Some a))"

text \<open>
  The default parameter \<^verbatim>\<open>requestParams = { f: "json" }\<close> followed by
  \<^verbatim>\<open>{ ...{ f: "json" }, ...requestParams }\<close>.
\<close>

definition merged_params :: "IParams option \<Rightarrow> IParams" where
  "merged_params requestParams =
     (let requestParams =
            (case requestParams of None \<Rightarrow> [(''f'', JStr ''json'')] | Some p \<Rightarrow> p)
      in spread [(''f'', JStr ''json'')] requestParams)"

text \<open>
  \<^verbatim>\<open>authentication ? authentication.getToken(url) : Promise.resolve("")\<close>, with the call
  it makes.
\<close>

definition tokenRequest ::
    "IAuthenticationManager option \<Rightarrow> string \<Rightarrow> event list \<times> string promise" where
  "tokenRequest auth url =
     (case auth of
        Some a \<Rightarrow> ([GetToken url], getToken a url)
      | None \<Rightarrow> ([], Inr ''''))"

text \<open>\<^verbatim>\<open>if (token.length) { params.token = token; }\<close>\<close>

definition inject_token :: "string \<Rightarrow> IParams \<Rightarrow> IParams" where
  "inject_token token params =
     (if length token \<noteq> 0 then set_prop ''token'' (JStr token) params else params)"

text \<open>The first callback on the response: the \<^verbatim>\<open>switch (params.f)\<close>.\<close>

definition decode :: "jsval \<Rightarrow> Response \<Rightarrow> event list \<times> jsval promise" where
  "decode f resp =
     (if f = JStr ''json'' then ([ReadJson], response_json resp)
      else if f = JStr ''geojson'' then ([ReadJson], response_json resp)
      else if f = JStr ''image'' then ([ReadBlob], map_sum id JBlob (response_blob resp))
      else if f = JStr ''html'' then ([ReadText], map_sum id JStr (response_text resp))
      else if f = JStr ''text'' then ([ReadText], map_sum id JStr (response_text resp))
      else if f = JStr ''zip'' then ([ReadBlob], map_sum id JBlob (response_blob resp))
      else ([], Inr JUndefined))"

text \<open>The second callback: the check of json and geojson data.\<close>

definition validate :: "deps \<Rightarrow> jsval \<Rightarrow> jsval \<Rightarrow> event list \<times> jsval promise" where
  "validate d f data =
     (if f = JStr ''json'' \<or> f = JStr ''geojson''
      then ([CheckForErrors data],
            (case checkForErrors d data of Some e \<Rightarrow> Inl e | None \<Rightarrow> Inr data))
      else ([], Inr data))"

text \<open>
  The callback on the token (lines 109 to 149 of \<^verbatim>\<open>request.ts\<close>): injection of the token,
  encoding by method, the network call, and the two callbacks on its response. A rejection
  skips what follows it.
\<close>

definition on_token ::
    "deps \<Rightarrow> string \<Rightarrow> HTTPMethods option \<Rightarrow> IParams \<Rightarrow> string
      \<Rightarrow> event list \<times> jsval promise" where
  "on_token d url meth params0 token =
     (let params = inject_token token params0;
          options = \<lparr>init_method = meth, body = None\<rparr>;
          (ev1, url) =
            (if meth = Some GET
             then ([EncodeQueryString params], url @ ''?'' @ encodeQueryString d params)
             else ([], url));
          (ev2, options) =
            (if meth = Some POST
             then ([EncodeFormData params], options\<lparr>body := Some (encodeFormData d params)\<rparr>)
             else ([], options));
          sent = ev1 @ ev2 @ [Fetch url options]
      in case fetch d url options of
           Inl e \<Rightarrow> (sent, Inl e)
         | Inr resp \<Rightarrow>
             (case decode (get_prop params ''f'') resp of
                (ev3, Inl e) \<Rightarrow> (sent @ ev3, Inl e)
              | (ev3, Inr data) \<Rightarrow>
                  (case validate d (get_prop params ''f'') data of
                     (ev4, r) \<Rightarrow> (sent @ ev3 @ ev4, r))))"

text \<open>
  \<^verbatim>\<open>request\<close> (lines 86 to 108): the two merges, the token request, and its callback.
  The result is the trace of the calls made and what the returned promise settles to.
\<close>

definition request ::
    "deps \<Rightarrow> string \<Rightarrow> IParams option \<Rightarrow> IRequestOptions option
      \<Rightarrow> event list \<times> jsval promise" where
  "request d url requestParams requestOptions =
     (let meth = merged_httpMethod requestOptions;
          auth = merged_authentication requestOptions;
          params = merged_params requestParams
      in case tokenRequest auth url of
           (ev0, Inl e) \<Rightarrow> (ev0, Inl e)
         | (ev0, Inr token) \<Rightarrow>
             (case on_token d url meth params token of
                (ev, r) \<Rightarrow> (ev0 @ ev, r)))"

text \<open>Reading a trace: the network calls, and the parameters handed to an encoder.\<close>

fun fetch_calls :: "event list \<Rightarrow> (string \<times> RequestInit) list" where
  "fetch_calls [] = []"
| "fetch_calls (Fetch u i # es) = (u, i) # fetch_calls es"
| "fetch_calls (_ # es) = fetch_calls es"

fun encoded_params :: "event list \<Rightarrow> IParams list" where
  "encoded_params [] = []"
| "encoded_params (EncodeQueryString p # es) = p # encoded_params es"
| "encoded_params (EncodeFormData p # es) = p # encoded_params es"
| "encoded_params (_ # es) = encoded_params es"

fun body_reads :: "event list \<Rightarrow> event list" where
  "body_reads [] = []"
| "body_reads (ReadJson # es) = ReadJson # body_reads es"
| "body_reads (ReadText # es) = ReadText # body_reads es"
| "body_reads (ReadBlob # es) = ReadBlob # body_reads es"
| "body_reads (_ # es) = body_reads es"

fun checked_data :: "event list \<Rightarrow> jsval list" where
  "checked_data [] = []"
| "checked_data (CheckForErrors v # es) = v # checked_data es"
| "checked_data (_ # es) = checked_data es"

text \<open>
  The request that \<^verbatim>\<open>on_token\<close> hands to \<^verbatim>\<open>fetch\<close>, for stating what was sent:
  \<open>fetch_calls_on_token\<close> below proves that it is this one.
\<close>

definition sent_url :: "deps \<Rightarrow> string \<Rightarrow> HTTPMethods option \<Rightarrow> IParams \<Rightarrow> string" where
  "sent_url d url meth ps =
     (if meth = Some GET then url @ ''?'' @ encodeQueryString d ps else url)"

definition sent_init :: "deps \<Rightarrow> HTTPMethods option \<Rightarrow> IParams \<Rightarrow> RequestInit" where
  "sent_init d meth ps =
     \<lparr>init_method = meth, body = (if meth = Some POST then Some (encodeFormData d ps) else None)\<rparr>"

text \<open>The three groups of response formats of the \<^verbatim>\<open>switch\<close>.\<close>

definition json_formats :: "jsval set" where
  "json_formats = {JStr ''json'', JStr ''geojson''}"

definition text_formats :: "jsval set" where
  "text_formats = {JStr ''text'', JStr ''html''}"

definition blob_formats :: "jsval set" where
  "blob_formats = {JStr ''image'', JStr ''zip''}"

section \<open>The helpers of \<^verbatim>\<open>./utils\<close> and \<^verbatim>\<open>generateToken\<close>\<close>

subsection \<open>The error checker\<close>

text \<open>
  Modelled from the spec: \<^verbatim>\<open>checkForErrors\<close> of \<^verbatim>\<open>utils/check-for-errors\<close>, which
  \<^verbatim>\<open>request.ts\<close> imports but which is not among the sources. Section 4.2 of the
  specification: a structure whose \<^verbatim>\<open>error\<close> field is an object makes the check fail with a
  \<^verbatim>\<open>RequestError\<close> carrying the message (the string \<^verbatim>\<open>UNKNOWN_ERROR_CODE\<close> when the message
  is missing), the code, the optional sub-code and detail list, and the whole response body;
  without an \<^verbatim>\<open>error\<close> field, or when that field lacks a recognizable signal, the input
  passes. The signal is read as: the error object holds a \<^verbatim>\<open>code\<close> or a \<^verbatim>\<open>message\<close>.
\<close>

definition spec_checkForErrors :: "jsval \<Rightarrow> rejection option" where
  "spec_checkForErrors data =
     (case data of
        JObj obj \<Rightarrow>
          (case map_of obj ''error'' of
             Some (JObj err) \<Rightarrow>
               if ''code'' \<in> fst ` set err \<or> ''message'' \<in> fst ` set err
               then Some (RequestError
                            (case map_of err ''message'' of
                               None \<Rightarrow> JStr ''UNKNOWN_ERROR_CODE''
                             | Some m \<Rightarrow> m)
                            (get_prop err ''code'')
                            (get_prop err ''messageCode'')
                            (get_prop err ''details'')
                            data)
               else None
           | _ \<Rightarrow> None)
      | _ \<Rightarrow> None)"

subsection \<open>Percent-encoding\<close>

text \<open>
  Modelled from the spec: the URL component encoding that section 4.3 of the specification
  asks of the query-string encoder (\<^verbatim>\<open>utils/encode-query-string\<close> is not among the
  sources). Every octet outside the unreserved set of \<^verbatim>\<open>encodeURIComponent\<close> (letters,
  digits and \<^verbatim>\<open>- _ . ! ~ * ' ( )\<close>) becomes \<^verbatim>\<open>%\<close> and two upper-case hexadecimal digits.
\<close>

definition unreserved_chars :: string where
  "unreserved_chars =
     ''ABCDEFGHIJKLMNOPQRSTUVWXYZabcdefghijklmnopqrstuvwxyz0123456789-_.!~*()'' @ [CHR 0x27]"

definition hex_digits :: string where
  "hex_digits = ''0123456789ABCDEF''"

definition hex_digit :: "nat \<Rightarrow> char" where
  "hex_digit n = hex_digits ! (n mod 16)"

definition percent_encode_char :: "char \<Rightarrow> string" where
  "percent_encode_char c =
     (if c \<in> set unreserved_chars then [c]
      else [CHR ''%'', hex_digit (of_char c div 16), hex_digit (of_char c mod 16)])"

definition encodeURIComponent :: "string \<Rightarrow> string" where
  "encodeURIComponent s = concat (map percent_encode_char s)"

text \<open>
  Modelled from the spec: the percent-decoding that the round trip of section 4.3 is stated
  with. A \<^verbatim>\<open>%\<close> must be followed by two hexadecimal digits, of either case; anything
  else makes the string undecodable (\<open>None\<close>).
\<close>

definition hex_value :: "char \<Rightarrow> nat option" where
  "hex_value c =
     (if c \<in> set ''0123456789'' then Some (of_char c - 48)
      else if c \<in> set ''ABCDEF'' then Some (of_char c - 55)
      else if c \<in> set ''abcdef'' then Some (of_char c - 87)
      else None)"

fun decodeURIComponent :: "string \<Rightarrow> string option" where
  "decodeURIComponent [] = Some []"
| "decodeURIComponent (c # cs) =
     (if c = CHR ''%''
      then (case cs of
              h # l # rest \<Rightarrow>
                (case (hex_value h, hex_value l) of
                   (Some a, Some b) \<Rightarrow>
                     map_option ((#) (char_of (16 * a + b))) (decodeURIComponent rest)
                 | _ \<Rightarrow> None)
            | _ \<Rightarrow> None)
      else map_option ((#) c) (decodeURIComponent cs))"

subsection \<open>The query-string encoder\<close>

text \<open>
  Modelled from the spec: the lossless text of a number (sections 4.3 and 4.4), in decimal,
  as \<^verbatim>\<open>String(n)\<close> writes an integer; the decimal digits are the first ten of
  \<open>hex_digits\<close>.
\<close>

fun string_of_nat :: "nat \<Rightarrow> string" where
  "string_of_nat n =
     (if n < 10 then [hex_digit n] else string_of_nat (n div 10) @ [hex_digit (n mod 10)])"

definition string_of_int :: "int \<Rightarrow> string" where
  "string_of_int i =
     (if 0 \<le> i then string_of_nat (nat i) else CHR ''-'' # string_of_nat (nat (- i)))"

text \<open>
  Modelled from the spec: the values that one entry of the mapping contributes to the query
  string (section 4.3). A scalar (string, number, boolean) contributes its text; an array or
  a nested object is expanded, one value per element, so that only scalars are ever written.
  The specification is silent on \<^verbatim>\<open>null\<close>, \<^verbatim>\<open>undefined\<close> and blobs: they contribute the
  text that \<^verbatim>\<open>String\<close> gives them.
\<close>

fun scalar_texts :: "jsval \<Rightarrow> string list" where
  "scalar_texts (JArr vs) = concat (map scalar_texts vs)"
| "scalar_texts (JObj kvs) = concat (map (\<lambda>kv. scalar_texts (snd kv)) kvs)"
| "scalar_texts (JStr s) = [s]"
| "scalar_texts (JNum n) = [string_of_int n]"
| "scalar_texts (JBool b) = [if b then ''true'' else ''false'']"
| "scalar_texts JNull = [''null'']"
| "scalar_texts JUndefined = [''undefined'']"
| "scalar_texts (JBlob b) = [''[object Blob]'']"

text \<open>
  Modelled from the spec: the scalar key/value pairs of a parameter mapping, in the order
  of its keys: what the query string encodes and what decoding it must give back.
\<close>

definition query_pairs :: "IParams \<Rightarrow> (string \<times> string) list" where
  "query_pairs ps = concat (map (\<lambda>(k, v). map (\<lambda>t. (k, t)) (scalar_texts v)) ps)"

text \<open>
  Modelled from the spec: \<^verbatim>\<open>encodeQueryString\<close> of \<^verbatim>\<open>utils/encode-query-string\<close>, which
  is not among the sources. Section 4.3: key and value of each pair are percent-encoded,
  written \<^verbatim>\<open>key=value\<close>, and the pairs are joined with \<^verbatim>\<open>&\<close>.
\<close>

fun join :: "string \<Rightarrow> string list \<Rightarrow> string" where
  "join sep [] = []"
| "join sep [x] = x"
| "join sep (x # y # ys) = x @ sep @ join sep (y # ys)"

definition encode_pair :: "string \<times> string \<Rightarrow> string" where
  "encode_pair kv = encodeURIComponent (fst kv) @ ''='' @ encodeURIComponent (snd kv)"

definition spec_encodeQueryString :: "IParams \<Rightarrow> string" where
  "spec_encodeQueryString ps = join ''&'' (map encode_pair (query_pairs ps))"

text \<open>
  Modelled from the spec: reading a query string back, for the round trip of section 4.3:
  split at \<^verbatim>\<open>&\<close>, split each piece at its first \<^verbatim>\<open>=\<close>, percent-decode both sides.
  The empty string holds no pair.
\<close>

fun split_on :: "char \<Rightarrow> string \<Rightarrow> string list" where
  "split_on c [] = [[]]"
| "split_on c (x # xs) =
     (if x = c then [] # split_on c xs
      else (case split_on c xs of [] \<Rightarrow> [[x]] | p # ps \<Rightarrow> (x # p) # ps))"

definition decode_pair :: "string \<Rightarrow> (string \<times> string) option" where
  "decode_pair piece =
     (case dropWhile (\<lambda>x. x \<noteq> CHR ''='') piece of
        [] \<Rightarrow> None
      | _ # v \<Rightarrow>
          (case (decodeURIComponent (takeWhile (\<lambda>x. x \<noteq> CHR ''='') piece),
                 decodeURIComponent v) of
             (Some a, Some b) \<Rightarrow> Some (a, b)
           | _ \<Rightarrow> None))"

definition decode_query :: "string \<Rightarrow> (string \<times> string) list option" where
  "decode_query s =
     (if s = [] then Some [] else those (map decode_pair (split_on CHR ''&'' s)))"

subsection \<open>The form-data encoder\<close>

text \<open>
  Modelled from the spec: \<^verbatim>\<open>encodeFormData\<close> of \<^verbatim>\<open>utils/encode-form-data\<close>, which is
  not among the sources. Section 4.4: every key-value pair is appended to the form; a blob
  as a file part, a primitive as the string part of its text, an array or a structured value
  as the string part of its JSON text. \<open>stringify\<close> is the platform's \<^verbatim>\<open>JSON.stringify\<close>.
\<close>

fun form_part :: "(jsval \<Rightarrow> string) \<Rightarrow> jsval \<Rightarrow> part" where
  "form_part stringify (JBlob b) = FilePart b"
| "form_part stringify (JStr s) = StringPart s"
| "form_part stringify (JNum n) = StringPart (string_of_int n)"
| "form_part stringify (JBool b) = StringPart (if b then ''true'' else ''false'')"
| "form_part stringify JNull = StringPart ''null''"
| "form_part stringify JUndefined = StringPart ''undefined''"
| "form_part stringify (JArr vs) = StringPart (stringify (JArr vs))"
| "form_part stringify (JObj kvs) = StringPart (stringify (JObj kvs))"

definition spec_encodeFormData :: "(jsval \<Rightarrow> string) \<Rightarrow> IParams \<Rightarrow> FormData" where
  "spec_encodeFormData stringify ps = map (\<lambda>(k, v). (k, form_part stringify v)) ps"

subsection \<open>\<^verbatim>\<open>generateToken\<close>\<close>

text \<open>
  Modelled from the spec: \<^verbatim>\<open>generateToken\<close> of the \<^verbatim>\<open>rest-auth\<close> package, of which only
  the test \<^verbatim>\<open>generateToken.test.ts\<close> is among the sources. Section 6 of the specification:
  a thin call into \<^verbatim>\<open>request\<close> with the credentials as its parameters; the test calls it
  with an object of \<^verbatim>\<open>username\<close> and \<^verbatim>\<open>password\<close> and no options.
\<close>

record credentials =
  username :: string
  password :: string

definition spec_generateToken ::
    "deps \<Rightarrow> string \<Rightarrow> credentials \<Rightarrow> event list \<times> jsval promise" where
  "spec_generateToken d url creds =
     request d url
       (Some [(''username'', JStr (username creds)), (''password'', JStr (password creds))])
       None"

section \<open>Mocked transports, for running the model on concrete calls\<close>

definition mock_response :: Response where
  "mock_response =
     \<lparr>response_json =
        Inr (JObj [(''error'', JObj [(''code'', JNum 400), (''message'', JStr ''Invalid token'')])]),
      response_text = Inr ''<p>hello</p>'',
      response_blob = Inr ''PK''\<rparr>"

text \<open>A transport that answers every call with \<open>mock_response\<close>, and helpers that are easy to read off.\<close>

definition mock_deps :: deps where
  "mock_deps =
     \<lparr>fetch = (\<lambda>u i. Inr mock_response),
      encodeQueryString = (\<lambda>ps. concat (map fst ps)),
      encodeFormData = (\<lambda>ps. map (\<lambda>(k, v). (k, StringPart k)) ps),
      checkForErrors = (\<lambda>v. None)\<rparr>"

definition checking_deps :: deps where
  "checking_deps = mock_deps\<lparr>checkForErrors := spec_checkForErrors\<rparr>"

definition mock_auth :: "string promise \<Rightarrow> IAuthenticationManager" where
  "mock_auth t = \<lparr>getToken = (\<lambda>u. t)\<rparr>"

text \<open>The mock of \<^verbatim>\<open>generateToken.test.ts\<close>: one POST to \<^verbatim>\<open>TOKEN_URL\<close> is answered.\<close>

definition TOKEN_URL :: string where
  "TOKEN_URL = ''https://www.arcgis.com/sharing/rest/generateToken''"

definition token_body :: IParams where
  "token_body = [(''token'', JStr ''token''), (''expires'', JNum 1500000000000)]"

definition token_deps :: deps where
  "token_deps =
     \<lparr>fetch = (\<lambda>u i. if u = TOKEN_URL \<and> init_method i = Some POST
                     then Inr \<lparr>response_json = Inr (JObj token_body),
                               response_text = Inl (Failure ''body used''),
                               response_blob = Inl (Failure ''body used'')\<rparr>
                     else Inl (Failure ''no mock'')),
      encodeQueryString = spec_encodeQueryString,
      encodeFormData = spec_encodeFormData (\<lambda>v. ''{}''),
      checkForErrors = spec_checkForErrors\<rparr>"

section \<open>Properties of the object operations and of the trace\<close>

lemma keys_set_prop: "fst ` set (set_prop k v obj) = insert k (fst ` set obj)"
  by (simp add: set_prop_def dom_update)

lemma keys_spread: "fst ` set (spread t s) = fst ` set t \<union> fst ` set s"
  by (induction t s rule: spread.induct) (simp_all add: keys_set_prop)

lemma map_of_set_prop: "map_of (set_prop k v obj) = (map_of obj)(k \<mapsto> v)"
  by (simp add: set_prop_def update_conv')


lemma f_key_merged_params: "''f'' \<in> fst ` set (merged_params rp)"
  by (simp add: merged_params_def keys_spread Let_def)

lemma merged_params_nonempty: "merged_params rp \<noteq> []"
  using f_key_merged_params[of rp] by auto

lemma inject_token_nonempty: "ps \<noteq> [] \<Longrightarrow> inject_token token ps \<noteq> []"
  using keys_set_prop[of "''token''" "JStr token" ps]
  by (auto simp: inject_token_def)

lemma get_prop_inject_token_f: "get_prop (inject_token token ps) ''f'' = get_prop ps ''f''"
  by (simp add: inject_token_def get_prop_def map_of_set_prop)

lemma fetch_calls_append: "fetch_calls (xs @ ys) = fetch_calls xs @ fetch_calls ys"
  by (induction xs rule: fetch_calls.induct) auto

lemma encoded_params_append: "encoded_params (xs @ ys) = encoded_params xs @ encoded_params ys"
  by (induction xs rule: encoded_params.induct) auto

lemma body_reads_append: "body_reads (xs @ ys) = body_reads xs @ body_reads ys"
  by (induction xs rule: body_reads.induct) auto

lemma checked_data_append: "checked_data (xs @ ys) = checked_data xs @ checked_data ys"
  by (induction xs rule: checked_data.induct) auto

lemma fetch_calls_decode [simp]: "fetch_calls (fst (decode f r)) = []"
  by (simp add: decode_def)

lemma fetch_calls_validate [simp]: "fetch_calls (fst (validate d f v)) = []"
  by (simp add: validate_def)

lemma fetch_calls_on_token:
  "fetch_calls (fst (on_token d url meth ps token)) =
     [(sent_url d url meth (inject_token token ps), sent_init d meth (inject_token token ps))]"
  by (simp add: on_token_def sent_url_def sent_init_def Let_def fetch_calls_append
      case_prod_beta split: sum.splits)

lemma tokenRequest_events:
  "fetch_calls (fst (tokenRequest auth url)) = []"
  "encoded_params (fst (tokenRequest auth url)) = []"
  "body_reads (fst (tokenRequest auth url)) = []"
  "checked_data (fst (tokenRequest auth url)) = []"
  by (simp_all add: tokenRequest_def split: option.splits)

lemma request_rejected:
  "snd (tokenRequest (merged_authentication ro) url) = Inl e \<Longrightarrow>
   request d url rp ro = (fst (tokenRequest (merged_authentication ro) url), Inl e)"
  by (simp add: request_def Let_def case_prod_beta split: sum.splits prod.splits)

lemma request_resolved:
  "snd (tokenRequest (merged_authentication ro) url) = Inr token \<Longrightarrow>
   request d url rp ro =
     (fst (tokenRequest (merged_authentication ro) url)
        @ fst (on_token d url (merged_httpMethod ro) (merged_params rp) token),
      snd (on_token d url (merged_httpMethod ro) (merged_params rp) token))"
  by (simp add: request_def Let_def case_prod_beta split: sum.splits prod.splits)

lemma fetch_calls_request_resolved:
  "snd (tokenRequest (merged_authentication ro) url) = Inr token \<Longrightarrow>
   fetch_calls (fst (request d url rp ro)) =
     [(sent_url d url (merged_httpMethod ro) (inject_token token (merged_params rp)),
       sent_init d (merged_httpMethod ro) (inject_token token (merged_params rp)))]"
  by (simp add: request_resolved fetch_calls_append tokenRequest_events fetch_calls_on_token)

lemma fetch_calls_request_rejected:
  "snd (tokenRequest (merged_authentication ro) url) = Inl e \<Longrightarrow>
   fetch_calls (fst (request d url rp ro)) = []"
  by (simp add: request_rejected tokenRequest_events)

lemma request_sent:
  assumes "fetch_calls (fst (request d url rp ro)) = [(u, i)]"
  obtains token where
    "snd (tokenRequest (merged_authentication ro) url) = Inr token"
    "u = sent_url d url (merged_httpMethod ro) (inject_token token (merged_params rp))"
    "i = sent_init d (merged_httpMethod ro) (inject_token token (merged_params rp))"
proof (cases "snd (tokenRequest (merged_authentication ro) url)")
  case (Inl e)
  with assms show ?thesis by (simp add: fetch_calls_request_rejected)
next
  case (Inr token)
  with assms that show ?thesis by (simp add: fetch_calls_request_resolved)
qed

lemma on_token_received:
  assumes "fetch d (sent_url d url meth (inject_token token ps))
             (sent_init d meth (inject_token token ps)) = Inr resp"
  shows "on_token d url meth ps token =
     (let f = get_prop ps ''f'';
          sent = (if meth = Some GET then [EncodeQueryString (inject_token token ps)] else [])
               @ (if meth = Some POST then [EncodeFormData (inject_token token ps)] else [])
               @ [Fetch (sent_url d url meth (inject_token token ps))
                    (sent_init d meth (inject_token token ps))]
      in case snd (decode f resp) of
           Inl e \<Rightarrow> (sent @ fst (decode f resp), Inl e)
         | Inr data \<Rightarrow>
             (sent @ fst (decode f resp) @ fst (validate d f data), snd (validate d f data)))"
proof -
  consider "meth = Some GET" | "meth = Some POST" | "meth = None"
    by (metis HTTPMethods.exhaust option.exhaust)
  then show ?thesis
    using assms
    by cases
      (simp_all add: on_token_def sent_url_def sent_init_def Let_def case_prod_beta
        get_prop_inject_token_f split: sum.splits)
qed

lemma on_token_failed:
  assumes "fetch d (sent_url d url meth (inject_token token ps))
             (sent_init d meth (inject_token token ps)) = Inl e"
  shows "on_token d url meth ps token =
     ((if meth = Some GET then [EncodeQueryString (inject_token token ps)] else [])
        @ (if meth = Some POST then [EncodeFormData (inject_token token ps)] else [])
        @ [Fetch (sent_url d url meth (inject_token token ps))
             (sent_init d meth (inject_token token ps))], Inl e)"
proof -
  consider "meth = Some GET" | "meth = Some POST" | "meth = None"
    by (metis HTTPMethods.exhaust option.exhaust)
  then show ?thesis
    using assms
    by cases
      (simp_all add: on_token_def sent_url_def sent_init_def Let_def case_prod_beta)
qed

text \<open>What \<^verbatim>\<open>request\<close> does once the response has arrived, in terms of the two callbacks.\<close>

lemma request_received:
  assumes calls: "fetch_calls (fst (request d url rp ro)) = [(u, i)]"
    and resp: "fetch d u i = Inr resp"
  shows "body_reads (fst (request d url rp ro)) =
           body_reads (fst (decode (get_prop (merged_params rp) ''f'') resp))"
    and "snd (decode (get_prop (merged_params rp) ''f'') resp) = Inl e \<Longrightarrow>
           snd (request d url rp ro) = Inl e
         \<and> checked_data (fst (request d url rp ro)) = []"
    and "snd (decode (get_prop (merged_params rp) ''f'') resp) = Inr data \<Longrightarrow>
           snd (request d url rp ro) = snd (validate d (get_prop (merged_params rp) ''f'') data)
         \<and> checked_data (fst (request d url rp ro)) =
             checked_data (fst (validate d (get_prop (merged_params rp) ''f'') data))"
proof -
  from calls obtain token where
    t: "snd (tokenRequest (merged_authentication ro) url) = Inr token"
    and u: "u = sent_url d url (merged_httpMethod ro) (inject_token token (merged_params rp))"
    and i: "i = sent_init d (merged_httpMethod ro) (inject_token token (merged_params rp))"
    by (rule request_sent)
  note r = request_resolved[OF t, of d rp]
    and dr = on_token_received[OF resp[unfolded u i]]
  have no_reads: "body_reads (fst (validate d f v)) = []" for f v
    by (simp add: validate_def)
  have no_checks: "checked_data (fst (decode f resp)) = []" for f
    by (simp add: decode_def)
  show "body_reads (fst (request d url rp ro)) =
           body_reads (fst (decode (get_prop (merged_params rp) ''f'') resp))"
    by (simp add: r dr Let_def body_reads_append tokenRequest_events no_reads
        split: sum.splits)
  show "snd (decode (get_prop (merged_params rp) ''f'') resp) = Inl e \<Longrightarrow>
           snd (request d url rp ro) = Inl e
         \<and> checked_data (fst (request d url rp ro)) = []"
    by (simp add: r dr Let_def checked_data_append tokenRequest_events no_checks)
  show "snd (decode (get_prop (merged_params rp) ''f'') resp) = Inr data \<Longrightarrow>
           snd (request d url rp ro) = snd (validate d (get_prop (merged_params rp) ''f'') data)
         \<and> checked_data (fst (request d url rp ro)) =
             checked_data (fst (validate d (get_prop (merged_params rp) ''f'') data))"
    by (simp add: r dr Let_def checked_data_append tokenRequest_events no_checks)
qed

lemma encoded_params_on_token:
  "encoded_params (fst (on_token d url meth ps token)) =
     (case meth of None \<Rightarrow> [] | Some m \<Rightarrow> [inject_token token ps])"
proof -
  have dec: "encoded_params (fst (decode f r)) = []" for f r
    by (simp add: decode_def)
  have val: "encoded_params (fst (validate d f v)) = []" for f v
    by (simp add: validate_def)
  consider "meth = Some GET" | "meth = Some POST" | "meth = None"
    by (metis HTTPMethods.exhaust option.exhaust)
  then show ?thesis
  proof cases
    case 1
    then show ?thesis
      by (cases "fetch d (sent_url d url meth (inject_token token ps))
                   (sent_init d meth (inject_token token ps))")
        (simp_all add: on_token_failed on_token_received Let_def encoded_params_append dec val
          split: sum.splits)
  next
    case 2
    then show ?thesis
      by (cases "fetch d (sent_url d url meth (inject_token token ps))
                   (sent_init d meth (inject_token token ps))")
        (simp_all add: on_token_failed on_token_received Let_def encoded_params_append dec val
          split: sum.splits)
  next
    case 3
    then show ?thesis
      by (cases "fetch d (sent_url d url meth (inject_token token ps))
                   (sent_init d meth (inject_token token ps))")
        (simp_all add: on_token_failed on_token_received Let_def encoded_params_append dec val
          split: sum.splits)
  qed
qed

text \<open>The definitions that running \<^verbatim>\<open>request\<close> on a concrete call unfolds.\<close>

lemmas run_defs =
  request_def on_token_def tokenRequest_def merged_httpMethod_def merged_authentication_def
  merged_params_def inject_token_def decode_def validate_def set_prop_def get_prop_def
  mock_deps_def mock_response_def mock_auth_def checking_deps_def Let_def

section \<open>Properties of percent-encoding and of the query string\<close>

declare string_of_nat.simps [simp del]

lemma hex_value_hex_digits: "list_all (\<lambda>n. hex_value (hex_digit n) = Some n) [0..<16]"
  by code_simp

lemma hex_value_hex_digit: "n < 16 \<Longrightarrow> hex_value (hex_digit n) = Some n"
  using hex_value_hex_digits by (simp add: list_all_iff)

lemma hex_digit_in: "hex_digit n \<in> set hex_digits"
  unfolding hex_digit_def by (rule nth_mem) (simp add: hex_digits_def)

lemma percent_not_unreserved: "CHR ''%'' \<notin> set unreserved_chars"
  by (simp add: unreserved_chars_def)

lemma decode_encode_char:
  "decodeURIComponent (percent_encode_char c @ rest) =
     map_option ((#) c) (decodeURIComponent rest)"
proof (cases "c \<in> set unreserved_chars")
  case True
  with percent_not_unreserved have "c \<noteq> CHR ''%''" by auto
  with True show ?thesis by (simp add: percent_encode_char_def)
next
  case False
  have lt: "(of_char c :: nat) div 16 < 16" "(of_char c :: nat) mod 16 < 16"
    using nat_of_char_less_256[of c] by presburger+
  have "char_of (16 * ((of_char c :: nat) div 16) + of_char c mod 16) = c"
    by simp
  with False show ?thesis
    by (simp add: percent_encode_char_def hex_value_hex_digit[OF lt(1)]
        hex_value_hex_digit[OF lt(2)])
qed

lemma decode_encodeURIComponent: "decodeURIComponent (encodeURIComponent s) = Some s"
  by (induction s) (simp_all add: encodeURIComponent_def decode_encode_char)

lemma encoded_chars:
  "set (encodeURIComponent s) \<subseteq> set unreserved_chars \<union> insert CHR ''%'' (set hex_digits)"
proof -
  have "set (percent_encode_char c) \<subseteq> set unreserved_chars \<union> insert CHR ''%'' (set hex_digits)"
    for c
    using hex_digit_in by (auto simp: percent_encode_char_def)
  then show ?thesis
    by (auto simp: encodeURIComponent_def)
qed

lemma no_separator_encoded:
  "CHR ''&'' \<notin> set (encodeURIComponent s)" "CHR ''='' \<notin> set (encodeURIComponent s)"
proof -
  have "CHR ''&'' \<notin> set unreserved_chars \<union> insert CHR ''%'' (set hex_digits)"
    and "CHR ''='' \<notin> set unreserved_chars \<union> insert CHR ''%'' (set hex_digits)"
    by (simp_all add: unreserved_chars_def hex_digits_def)
  with encoded_chars[of s]
  show "CHR ''&'' \<notin> set (encodeURIComponent s)" "CHR ''='' \<notin> set (encodeURIComponent s)"
    by blast+
qed

lemma decode_encode_pair: "decode_pair (encode_pair kv) = Some kv"
proof -
  have t: "takeWhile (\<lambda>x. x \<noteq> CHR ''='') (encodeURIComponent (fst kv) @ CHR ''='' # encodeURIComponent (snd kv))
             = encodeURIComponent (fst kv)"
    using no_separator_encoded(2)[of "fst kv"]
    by (subst takeWhile_append2) auto
  have d: "dropWhile (\<lambda>x. x \<noteq> CHR ''='') (encodeURIComponent (fst kv) @ CHR ''='' # encodeURIComponent (snd kv))
             = CHR ''='' # encodeURIComponent (snd kv)"
    using no_separator_encoded(2)[of "fst kv"]
    by (subst dropWhile_append2) auto
  show ?thesis
    by (simp add: decode_pair_def encode_pair_def t d decode_encodeURIComponent)
qed

lemma no_amp_encode_pair: "CHR ''&'' \<notin> set (encode_pair kv)"
  using no_separator_encoded(1) by (simp add: encode_pair_def)

lemma encode_pair_nonempty: "encode_pair kv \<noteq> []"
  by (simp add: encode_pair_def)

lemma split_on_nonempty: "split_on c s \<noteq> []"
  by (induction s) (auto split: list.splits)

lemma split_on_no_sep: "c \<notin> set a \<Longrightarrow> split_on c a = [a]"
  by (induction a) auto

lemma split_on_append:
  "c \<notin> set a \<Longrightarrow> split_on c (a @ c # rest) = a # split_on c rest"
  by (induction a) auto

lemma split_on_join:
  "\<forall>p \<in> set ps. c \<notin> set p \<Longrightarrow> ps \<noteq> [] \<Longrightarrow> split_on c (join [c] ps) = ps"
  by (induction "[c]" ps rule: join.induct) (simp_all add: split_on_no_sep split_on_append)

lemma join_nonempty: "ps \<noteq> [] \<Longrightarrow> \<forall>p \<in> set ps. p \<noteq> [] \<Longrightarrow> join sep ps \<noteq> []"
  by (induction sep ps rule: join.induct) simp_all

lemma those_decode_pairs: "those (map (decode_pair \<circ> encode_pair) qs) = Some qs"
  by (induction qs) (simp_all add: decode_encode_pair)

lemma decode_query_join: "decode_query (join ''&'' (map encode_pair qs)) = Some qs"
proof (cases qs)
  case Nil
  then show ?thesis by (simp add: decode_query_def)
next
  case (Cons q qs')
  then have ne: "map encode_pair qs \<noteq> []" by simp
  have "join ''&'' (map encode_pair qs) \<noteq> []"
    by (rule join_nonempty[OF ne]) (simp add: encode_pair_nonempty)
  moreover have "split_on CHR ''&'' (join ''&'' (map encode_pair qs)) = map encode_pair qs"
    by (rule split_on_join[OF _ ne]) (simp add: no_amp_encode_pair)
  ultimately show ?thesis
    by (simp add: decode_query_def those_decode_pairs)
qed

lemma query_pairs_strings: "query_pairs (map (\<lambda>(k, s). (k, JStr s)) kvs) = kvs"
  by (induction kvs) (auto simp: query_pairs_def)

section \<open>The claims\<close>

text \<open>
  C1. Once the token request has resolved, \<^verbatim>\<open>request\<close> issues exactly one network call.
  With the resolved method GET the call has no body and its URL is the given one followed by
  \<open>?\<close> and the query-string encoding of the merged parameters; with POST it carries the
  form-data encoding of the merged parameters as its body, to the unmodified URL. The merged
  parameters are never empty: they hold \<open>f\<close>.
\<close>

theorem request_encodes_by_method:
  assumes "snd (tokenRequest (merged_authentication ro) url) = Inr token"
  shows "(merged_httpMethod ro = Some GET \<longrightarrow>
            fetch_calls (fst (request d url rp ro)) =
              [(url @ ''?'' @ encodeQueryString d (inject_token token (merged_params rp)),
                \<lparr>init_method = Some GET, body = None\<rparr>)])
       \<and> (merged_httpMethod ro = Some POST \<longrightarrow>
            fetch_calls (fst (request d url rp ro)) =
              [(url, \<lparr>init_method = Some POST,
                      body = Some (encodeFormData d (inject_token token (merged_params rp)))\<rparr>)])
       \<and> inject_token token (merged_params rp) \<noteq> []"
  using assms
  by (simp add: fetch_calls_request_resolved sent_url_def sent_init_def
      inject_token_nonempty merged_params_nonempty)

theorem request_encodes_by_method_witness:
  "snd (tokenRequest (merged_authentication (Some \<lparr>httpMethod = Given GET, authentication = Absent\<rparr>))
         ''https://host/rest'') = Inr ''''
   \<and> fetch_calls (fst (request mock_deps ''https://host/rest'' (Some [(''q'', JStr ''parks'')])
         (Some \<lparr>httpMethod = Given GET, authentication = Absent\<rparr>))) =
       [(''https://host/rest?fq'', \<lparr>init_method = Some GET, body = None\<rparr>)]
   \<and> snd (tokenRequest (merged_authentication None) ''https://host/rest'') = Inr ''''
   \<and> fetch_calls (fst (request mock_deps ''https://host/rest'' (Some [(''q'', JStr ''parks'')]) None)) =
       [(''https://host/rest'',
         \<lparr>init_method = Some POST, body = Some [(''f'', StringPart ''f''), (''q'', StringPart ''q'')]\<rparr>)]"
proof -
  let ?get = "Some \<lparr>httpMethod = Given GET, authentication = Absent\<rparr>"
  have g: "snd (tokenRequest (merged_authentication ?get) ''https://host/rest'') = Inr ''''"
    by (simp add: tokenRequest_def merged_authentication_def)
  have p: "snd (tokenRequest (merged_authentication None) ''https://host/rest'') = Inr ''''"
    by (simp add: tokenRequest_def merged_authentication_def)
  show ?thesis
    using g p
      request_encodes_by_method [OF g, of mock_deps "Some [(''q'', JStr ''parks'')]"]
      request_encodes_by_method [OF p, of mock_deps "Some [(''q'', JStr ''parks'')]"]
    by (simp add: merged_httpMethod_def merged_params_def inject_token_def set_prop_def
        mock_deps_def)
qed

text \<open>
  C2. When the network call has been answered, the body is read by the value of \<open>f\<close> in the
  merged parameters alone, and at most once: as JSON for \<open>json\<close> and \<open>geojson\<close> (the parsed
  value then goes to the error check), as a string for \<open>text\<close> and \<open>html\<close>, as a blob for
  \<open>image\<close> and \<open>zip\<close>; the result of \<^verbatim>\<open>request\<close> is what that reader gave.
\<close>

theorem request_decodes_by_format:
  assumes "fetch_calls (fst (request d url rp ro)) = [(u, i)]"
    and "fetch d u i = Inr resp"
  shows "body_reads (fst (request d url rp ro)) =
           (if get_prop (merged_params rp) ''f'' \<in> json_formats then [ReadJson]
            else if get_prop (merged_params rp) ''f'' \<in> text_formats then [ReadText]
            else if get_prop (merged_params rp) ''f'' \<in> blob_formats then [ReadBlob]
            else [])
       \<and> (get_prop (merged_params rp) ''f'' \<in> json_formats \<longrightarrow>
            (case response_json resp of
               Inl e \<Rightarrow> snd (request d url rp ro) = Inl e
             | Inr v \<Rightarrow> checked_data (fst (request d url rp ro)) = [v]
                      \<and> snd (request d url rp ro) =
                          (case checkForErrors d v of Some e \<Rightarrow> Inl e | None \<Rightarrow> Inr v)))
       \<and> (get_prop (merged_params rp) ''f'' \<in> text_formats \<longrightarrow>
            snd (request d url rp ro) = map_sum id JStr (response_text resp))
       \<and> (get_prop (merged_params rp) ''f'' \<in> blob_formats \<longrightarrow>
            snd (request d url rp ro) = map_sum id JBlob (response_blob resp))"
proof -
  note rr = request_received[OF assms]
  let ?f = "get_prop (merged_params rp) ''f''"
  have reads: "body_reads (fst (request d url rp ro)) =
           (if ?f \<in> json_formats then [ReadJson]
            else if ?f \<in> text_formats then [ReadText]
            else if ?f \<in> blob_formats then [ReadBlob]
            else [])"
    by (simp add: rr(1) decode_def json_formats_def text_formats_def blob_formats_def)
  have js: "case response_json resp of
               Inl e \<Rightarrow> snd (request d url rp ro) = Inl e
             | Inr v \<Rightarrow> checked_data (fst (request d url rp ro)) = [v]
                      \<and> snd (request d url rp ro) =
                          (case checkForErrors d v of Some e \<Rightarrow> Inl e | None \<Rightarrow> Inr v)"
    if "?f \<in> json_formats"
  proof (cases "response_json resp")
    case (Inl e)
    with that have "snd (decode ?f resp) = Inl e"
      by (auto simp: decode_def json_formats_def)
    with rr(2) Inl show ?thesis by simp
  next
    case (Inr v)
    with that have "snd (decode ?f resp) = Inr v"
      by (auto simp: decode_def json_formats_def)
    from rr(3)[OF this] that Inr show ?thesis
      by (auto simp: validate_def json_formats_def)
  qed
  have tx: "snd (request d url rp ro) = map_sum id JStr (response_text resp)"
    if "?f \<in> text_formats"
  proof (cases "response_text resp")
    case (Inl e)
    with that have "snd (decode ?f resp) = Inl e"
      by (auto simp: decode_def text_formats_def)
    with rr(2) Inl show ?thesis by simp
  next
    case (Inr s)
    with that have "snd (decode ?f resp) = Inr (JStr s)"
      by (auto simp: decode_def text_formats_def)
    from rr(3)[OF this] that Inr show ?thesis
      by (auto simp: validate_def text_formats_def)
  qed
  have bl: "snd (request d url rp ro) = map_sum id JBlob (response_blob resp)"
    if "?f \<in> blob_formats"
  proof (cases "response_blob resp")
    case (Inl e)
    with that have "snd (decode ?f resp) = Inl e"
      by (auto simp: decode_def blob_formats_def)
    with rr(2) Inl show ?thesis by simp
  next
    case (Inr s)
    with that have "snd (decode ?f resp) = Inr (JBlob s)"
      by (auto simp: decode_def blob_formats_def)
    from rr(3)[OF this] that Inr show ?thesis
      by (auto simp: validate_def blob_formats_def)
  qed
  from reads js tx bl show ?thesis by blast
qed

theorem request_decodes_by_format_witness:
  "fetch_calls (fst (request mock_deps ''u'' None None)) =
     [(''u'', \<lparr>init_method = Some POST, body = Some [(''f'', StringPart ''f'')]\<rparr>)]
   \<and> fetch mock_deps ''u'' \<lparr>init_method = Some POST, body = Some [(''f'', StringPart ''f'')]\<rparr>
       = Inr mock_response
   \<and> body_reads (fst (request mock_deps ''u'' None None)) = [ReadJson]
   \<and> snd (request mock_deps ''u'' None None) = response_json mock_response
   \<and> body_reads (fst (request mock_deps ''u'' (Some [(''f'', JStr ''html'')]) None)) = [ReadText]
   \<and> snd (request mock_deps ''u'' (Some [(''f'', JStr ''html'')]) None) = Inr (JStr ''<p>hello</p>'')
   \<and> body_reads (fst (request mock_deps ''u'' (Some [(''f'', JStr ''zip'')]) None)) = [ReadBlob]
   \<and> snd (request mock_deps ''u'' (Some [(''f'', JStr ''zip'')]) None) = Inr (JBlob ''PK'')"
proof -
  let ?i = "\<lparr>init_method = Some POST, body = Some [(''f'', StringPart ''f'')]\<rparr>"
  have r: "fetch mock_deps ''u'' ?i = Inr mock_response"
    by (simp add: mock_deps_def)
  have j: "fetch_calls (fst (request mock_deps ''u'' None None)) = [(''u'', ?i)]"
    by (simp add: run_defs)
  have h: "fetch_calls (fst (request mock_deps ''u'' (Some [(''f'', JStr ''html'')]) None)) = [(''u'', ?i)]"
    by (simp add: run_defs)
  have z: "fetch_calls (fst (request mock_deps ''u'' (Some [(''f'', JStr ''zip'')]) None)) = [(''u'', ?i)]"
    by (simp add: run_defs)
  show ?thesis
    using j r request_decodes_by_format [OF j r] request_decodes_by_format [OF h r]
      request_decodes_by_format [OF z r]
    by (simp add: merged_params_def get_prop_def set_prop_def json_formats_def
        text_formats_def blob_formats_def mock_deps_def mock_response_def)
qed

text \<open>
  C3. With format \<open>json\<close> or \<open>geojson\<close> and the error checker of the specification, a decoded
  body whose \<open>error\<close> field is an object with a code makes \<^verbatim>\<open>request\<close> reject with a
  \<^verbatim>\<open>RequestError\<close>: its message is the embedded message, or \<^verbatim>\<open>UNKNOWN_ERROR_CODE\<close> when
  the message is missing, its code is the embedded code, and it carries the whole body. The
  body \<^verbatim>\<open>{error: {code: 400, message: "Invalid token"}}\<close> gives message \<^verbatim>\<open>Invalid token\<close> and
  code 400.
\<close>

theorem error_body_rejects:
  assumes "fetch_calls (fst (request d url rp ro)) = [(u, i)]"
    and "fetch d u i = Inr resp"
    and "get_prop (merged_params rp) ''f'' \<in> json_formats"
    and "response_json resp = Inr (JObj obj)"
    and "checkForErrors d = spec_checkForErrors"
    and "map_of obj ''error'' = Some (JObj err)"
    and "map_of err ''code'' = Some c"
  shows "snd (request d url rp ro) =
           Inl (RequestError
                  (case map_of err ''message'' of
                     None \<Rightarrow> JStr ''UNKNOWN_ERROR_CODE''
                   | Some m \<Rightarrow> m)
                  c
                  (get_prop err ''messageCode'')
                  (get_prop err ''details'')
                  (JObj obj))"
proof -
  from assms(7) have k: "''code'' \<in> fst ` set err"
    by (metis domI dom_map_of_conv_image_fst)
  from assms(3,4) have dec: "snd (decode (get_prop (merged_params rp) ''f'') resp) = Inr (JObj obj)"
    by (auto simp: decode_def json_formats_def)
  from request_received(3)[OF assms(1,2) dec] assms(3)
  have "snd (request d url rp ro) =
          (case checkForErrors d (JObj obj) of Some e \<Rightarrow> Inl e | None \<Rightarrow> Inr (JObj obj))"
    by (auto simp: validate_def json_formats_def)
  with assms(5,6,7) k show ?thesis
    by (simp add: spec_checkForErrors_def get_prop_def)
qed

theorem error_body_rejects_witness:
  "fetch_calls (fst (request checking_deps ''u'' None None)) =
     [(''u'', \<lparr>init_method = Some POST, body = Some [(''f'', StringPart ''f'')]\<rparr>)]
   \<and> fetch checking_deps ''u'' \<lparr>init_method = Some POST, body = Some [(''f'', StringPart ''f'')]\<rparr>
       = Inr mock_response
   \<and> get_prop (merged_params None) ''f'' \<in> json_formats
   \<and> response_json mock_response =
       Inr (JObj [(''error'', JObj [(''code'', JNum 400), (''message'', JStr ''Invalid token'')])])
   \<and> checkForErrors checking_deps = spec_checkForErrors
   \<and> snd (request checking_deps ''u'' None None) =
       Inl (RequestError (JStr ''Invalid token'') (JNum 400) JUndefined JUndefined
             (JObj [(''error'',
                JObj [(''code'', JNum 400), (''message'', JStr ''Invalid token'')])]))"
proof -
  let ?i = "\<lparr>init_method = Some POST, body = Some [(''f'', StringPart ''f'')]\<rparr>"
  let ?err = "[(''code'', JNum 400), (''message'', JStr ''Invalid token'')]"
  have c: "fetch_calls (fst (request checking_deps ''u'' None None)) = [(''u'', ?i)]"
    by (simp add: run_defs)
  have r: "fetch checking_deps ''u'' ?i = Inr mock_response"
    by (simp add: checking_deps_def mock_deps_def)
  have f: "get_prop (merged_params None) ''f'' \<in> json_formats"
    by (simp add: merged_params_def get_prop_def set_prop_def json_formats_def)
  have j: "response_json mock_response = Inr (JObj [(''error'', JObj ?err)])"
    by (simp add: mock_response_def)
  have k: "checkForErrors checking_deps = spec_checkForErrors"
    by (simp add: checking_deps_def)
  have e: "map_of [(''error'', JObj ?err)] ''error'' = Some (JObj ?err)"
    by simp
  have cd: "map_of ?err ''code'' = Some (JNum 400)"
    by simp
  show ?thesis
    using c r f j k error_body_rejects [OF c r f j k e cd]
    by (simp add: get_prop_def)
qed

text \<open>
  C4. After the body has been decoded to \<open>data\<close>, the error check is applied (to \<open>data\<close>)
  exactly when \<open>f\<close> is \<open>json\<close> or \<open>geojson\<close>, and then it decides the result: what the checker
  throws is the rejection, and \<open>data\<close> is the result when it returns. With every other
  format no check is made and \<^verbatim>\<open>request\<close> resolves with \<open>data\<close>. With \<open>image\<close>, a response
  whose JSON reading would be \<^verbatim>\<open>{error: {...}}\<close> resolves with the blob, while with
  \<open>json\<close> the same response is rejected.
\<close>

theorem error_check_only_for_json:
  assumes "fetch_calls (fst (request d url rp ro)) = [(u, i)]"
    and "fetch d u i = Inr resp"
    and "snd (decode (get_prop (merged_params rp) ''f'') resp) = Inr data"
  shows "checked_data (fst (request d url rp ro)) =
           (if get_prop (merged_params rp) ''f'' \<in> json_formats then [data] else [])
       \<and> (get_prop (merged_params rp) ''f'' \<notin> json_formats \<longrightarrow>
            snd (request d url rp ro) = Inr data)
       \<and> (get_prop (merged_params rp) ''f'' \<in> json_formats \<longrightarrow>
            snd (request d url rp ro) =
              (case checkForErrors d data of Some e \<Rightarrow> Inl e | None \<Rightarrow> Inr data))"
proof -
  note rr = request_received(3)[OF assms]
  let ?f = "get_prop (merged_params rp) ''f''"
  have checks: "checked_data (fst (request d url rp ro)) =
           (if ?f \<in> json_formats then [data] else [])"
    using rr by (simp add: validate_def json_formats_def)
  have pass: "snd (request d url rp ro) = Inr data" if "?f \<notin> json_formats"
    using rr that by (simp add: validate_def json_formats_def)
  have decided: "snd (request d url rp ro) =
              (case checkForErrors d data of Some e \<Rightarrow> Inl e | None \<Rightarrow> Inr data)"
    if "?f \<in> json_formats"
    using rr that by (auto simp: validate_def json_formats_def)
  from checks pass decided show ?thesis by blast
qed

theorem error_check_only_for_json_witness:
  "fetch_calls (fst (request checking_deps ''u'' (Some [(''f'', JStr ''image'')]) None)) =
     [(''u'', \<lparr>init_method = Some POST, body = Some [(''f'', StringPart ''f'')]\<rparr>)]
   \<and> fetch checking_deps ''u'' \<lparr>init_method = Some POST, body = Some [(''f'', StringPart ''f'')]\<rparr>
       = Inr mock_response
   \<and> snd (decode (get_prop (merged_params (Some [(''f'', JStr ''image'')])) ''f'') mock_response)
       = Inr (JBlob ''PK'')
   \<and> get_prop (merged_params (Some [(''f'', JStr ''image'')])) ''f'' \<notin> json_formats
   \<and> spec_checkForErrors
         (JObj [(''error'', JObj [(''code'', JNum 400), (''message'', JStr ''Invalid token'')])])
       \<noteq> None
   \<and> response_json mock_response =
       Inr (JObj [(''error'', JObj [(''code'', JNum 400), (''message'', JStr ''Invalid token'')])])
   \<and> checked_data (fst (request checking_deps ''u'' (Some [(''f'', JStr ''image'')]) None)) = []
   \<and> snd (request checking_deps ''u'' (Some [(''f'', JStr ''image'')]) None) = Inr (JBlob ''PK'')
   \<and> fetch_calls (fst (request checking_deps ''u'' None None)) =
     [(''u'', \<lparr>init_method = Some POST, body = Some [(''f'', StringPart ''f'')]\<rparr>)]
   \<and> snd (decode (get_prop (merged_params None) ''f'') mock_response) =
       Inr (JObj [(''error'', JObj [(''code'', JNum 400), (''message'', JStr ''Invalid token'')])])
   \<and> get_prop (merged_params None) ''f'' \<in> json_formats
   \<and> checked_data (fst (request checking_deps ''u'' None None)) =
       [JObj [(''error'', JObj [(''code'', JNum 400), (''message'', JStr ''Invalid token'')])]]
   \<and> snd (request checking_deps ''u'' None None) =
       Inl (RequestError (JStr ''Invalid token'') (JNum 400) JUndefined JUndefined
             (JObj [(''error'',
                JObj [(''code'', JNum 400), (''message'', JStr ''Invalid token'')])]))"
proof -
  let ?i = "\<lparr>init_method = Some POST, body = Some [(''f'', StringPart ''f'')]\<rparr>"
  let ?rp = "Some [(''f'', JStr ''image'')]"
  let ?body = "JObj [(''error'', JObj [(''code'', JNum 400), (''message'', JStr ''Invalid token'')])]"
  have c: "fetch_calls (fst (request checking_deps ''u'' ?rp None)) = [(''u'', ?i)]"
    by (simp add: run_defs)
  have r: "fetch checking_deps ''u'' ?i = Inr mock_response"
    by (simp add: checking_deps_def mock_deps_def)
  have dd: "snd (decode (get_prop (merged_params ?rp) ''f'') mock_response) = Inr (JBlob ''PK'')"
    by (simp add: run_defs)
  have cj: "fetch_calls (fst (request checking_deps ''u'' None None)) = [(''u'', ?i)]"
    by (simp add: run_defs)
  have dj: "snd (decode (get_prop (merged_params None) ''f'') mock_response) = Inr ?body"
    by (simp add: run_defs)
  show ?thesis
    using c r dd cj dj error_check_only_for_json [OF c r dd]
      error_check_only_for_json [OF cj r dj]
    by (simp add: merged_params_def get_prop_def set_prop_def json_formats_def
        mock_response_def spec_checkForErrors_def checking_deps_def mock_deps_def)
qed

text \<open>
  C5. With an authentication provider whose token request resolves to a non-empty string,
  the first call of \<^verbatim>\<open>request\<close> is the token request, and the parameters handed to the
  encoder afterwards are the merged parameters with \<open>token\<close> set to that string. When the token
  request is rejected, nothing is encoded and nothing is sent. With no provider, the encoder
  gets the merged parameters as they are: no \<open>token\<close> field is added.
\<close>

theorem request_token_injection:
  "(merged_authentication ro = Some a \<and> getToken a url = Inr token \<and> token \<noteq> [] \<longrightarrow>
      (\<exists>rest. fst (request d url rp ro) = GetToken url # rest
         \<and> encoded_params rest =
             (case merged_httpMethod ro of
                None \<Rightarrow> []
              | Some m \<Rightarrow> [set_prop ''token'' (JStr token) (merged_params rp)]))
      \<and> get_prop (set_prop ''token'' (JStr token) (merged_params rp)) ''token'' = JStr token)
   \<and> (merged_authentication ro = Some a \<and> getToken a url = Inl e \<longrightarrow>
        request d url rp ro = ([GetToken url], Inl e))
   \<and> (merged_authentication ro = None \<longrightarrow>
        encoded_params (fst (request d url rp ro)) =
          (case merged_httpMethod ro of None \<Rightarrow> [] | Some m \<Rightarrow> [merged_params rp]))"
proof (intro conjI impI)
  assume h: "merged_authentication ro = Some a \<and> getToken a url = Inr token \<and> token \<noteq> []"
  then have t: "snd (tokenRequest (merged_authentication ro) url) = Inr token"
    by (simp add: tokenRequest_def)
  from h show "\<exists>rest. fst (request d url rp ro) = GetToken url # rest
         \<and> encoded_params rest =
             (case merged_httpMethod ro of
                None \<Rightarrow> []
              | Some m \<Rightarrow> [set_prop ''token'' (JStr token) (merged_params rp)])"
    by (simp add: request_resolved[OF t] tokenRequest_def encoded_params_on_token
        inject_token_def split: option.splits)
  show "get_prop (set_prop ''token'' (JStr token) (merged_params rp)) ''token'' = JStr token"
    by (simp add: get_prop_def map_of_set_prop)
next
  assume h: "merged_authentication ro = Some a \<and> getToken a url = Inl e"
  then have t: "snd (tokenRequest (merged_authentication ro) url) = Inl e"
    by (simp add: tokenRequest_def)
  from h show "request d url rp ro = ([GetToken url], Inl e)"
    by (simp add: request_rejected[OF t] tokenRequest_def)
next
  assume h: "merged_authentication ro = None"
  then have t: "snd (tokenRequest (merged_authentication ro) url) = Inr ''''"
    by (simp add: tokenRequest_def)
  from h show "encoded_params (fst (request d url rp ro)) =
          (case merged_httpMethod ro of None \<Rightarrow> [] | Some m \<Rightarrow> [merged_params rp])"
    by (simp add: request_resolved[OF t] tokenRequest_def encoded_params_on_token
        encoded_params_append inject_token_def split: option.splits)
qed

theorem request_token_injection_witness:
  "merged_authentication (Some \<lparr>httpMethod = Given GET,
       authentication = Given (mock_auth (Inr ''abc''))\<rparr>) = Some (mock_auth (Inr ''abc''))
   \<and> getToken (mock_auth (Inr ''abc'')) ''u'' = Inr ''abc'' \<and> ''abc'' \<noteq> []
   \<and> fst (request mock_deps ''u'' None
        (Some \<lparr>httpMethod = Given GET, authentication = Given (mock_auth (Inr ''abc''))\<rparr>)) =
       [GetToken ''u'',
        EncodeQueryString [(''f'', JStr ''json''), (''token'', JStr ''abc'')],
        Fetch ''u?ftoken'' \<lparr>init_method = Some GET, body = None\<rparr>,
        ReadJson,
        CheckForErrors (JObj [(''error'',
          JObj [(''code'', JNum 400), (''message'', JStr ''Invalid token'')])])]
   \<and> merged_authentication (Some \<lparr>httpMethod = Absent,
       authentication = Given (mock_auth (Inl (Failure ''no session'')))\<rparr>)
      = Some (mock_auth (Inl (Failure ''no session'')))
   \<and> getToken (mock_auth (Inl (Failure ''no session''))) ''u'' = Inl (Failure ''no session'')
   \<and> request mock_deps ''u'' None
        (Some \<lparr>httpMethod = Absent,
               authentication = Given (mock_auth (Inl (Failure ''no session'')))\<rparr>) =
       ([GetToken ''u''], Inl (Failure ''no session''))
   \<and> merged_authentication None = None
   \<and> encoded_params (fst (request mock_deps ''u'' None None)) = [[(''f'', JStr ''json'')]]"
  using
    request_token_injection [of
      "Some \<lparr>httpMethod = Given GET, authentication = Given (mock_auth (Inr ''abc''))\<rparr>"
      "mock_auth (Inr ''abc'')" "''u''" "''abc''" mock_deps None "Failure ''x''"]
    request_token_injection [of
      "Some \<lparr>httpMethod = Absent,
             authentication = Given (mock_auth (Inl (Failure ''no session'')))\<rparr>"
      "mock_auth (Inl (Failure ''no session''))" "''u''" "''abc''" mock_deps None
      "Failure ''no session''"]
    request_token_injection [of None "mock_auth (Inr ''abc'')" "''u''" "''abc''" mock_deps None
      "Failure ''x''"]
  by (simp add: run_defs)



text \<open>
  C7. When the network call has been answered and \<open>f\<close> is none of the six recognized
  formats, the body is not read, no check is made, and \<^verbatim>\<open>request\<close> resolves with
  \<^verbatim>\<open>undefined\<close>: no error is raised.
\<close>

theorem unrecognized_format_resolves_undefined:
  assumes "fetch_calls (fst (request d url rp ro)) = [(u, i)]"
    and "fetch d u i = Inr resp"
    and "get_prop (merged_params rp) ''f'' \<notin> json_formats \<union> text_formats \<union> blob_formats"
  shows "snd (request d url rp ro) = Inr JUndefined
       \<and> body_reads (fst (request d url rp ro)) = []
       \<and> checked_data (fst (request d url rp ro)) = []"
proof -
  from assms(3) have dec: "decode (get_prop (merged_params rp) ''f'') resp = ([], Inr JUndefined)"
    by (simp add: decode_def json_formats_def text_formats_def blob_formats_def)
  then have s: "snd (decode (get_prop (merged_params rp) ''f'') resp) = Inr JUndefined"
    by simp
  from assms(3) have v: "validate d (get_prop (merged_params rp) ''f'') JUndefined = ([], Inr JUndefined)"
    by (simp add: validate_def json_formats_def)
  show ?thesis
    using request_received(1)[OF assms(1,2)] request_received(3)[OF assms(1,2) s] dec v
    by simp
qed

theorem unrecognized_format_resolves_undefined_witness:
  "fetch_calls (fst (request checking_deps ''u'' (Some [(''f'', JStr ''pjson'')]) None)) =
     [(''u'', \<lparr>init_method = Some POST, body = Some [(''f'', StringPart ''f'')]\<rparr>)]
   \<and> fetch checking_deps ''u'' \<lparr>init_method = Some POST, body = Some [(''f'', StringPart ''f'')]\<rparr>
       = Inr mock_response
   \<and> get_prop (merged_params (Some [(''f'', JStr ''pjson'')])) ''f''
       \<notin> json_formats \<union> text_formats \<union> blob_formats
   \<and> request checking_deps ''u'' (Some [(''f'', JStr ''pjson'')]) None =
       ([EncodeFormData [(''f'', JStr ''pjson'')],
         Fetch ''u'' \<lparr>init_method = Some POST, body = Some [(''f'', StringPart ''f'')]\<rparr>],
        Inr JUndefined)"
proof -
  let ?i = "\<lparr>init_method = Some POST, body = Some [(''f'', StringPart ''f'')]\<rparr>"
  let ?rp = "Some [(''f'', JStr ''pjson'')]"
  have c: "fetch_calls (fst (request checking_deps ''u'' ?rp None)) = [(''u'', ?i)]"
    by (simp add: run_defs)
  have r: "fetch checking_deps ''u'' ?i = Inr mock_response"
    by (simp add: checking_deps_def mock_deps_def)
  have f: "get_prop (merged_params ?rp) ''f'' \<notin> json_formats \<union> text_formats \<union> blob_formats"
    by (simp add: merged_params_def get_prop_def set_prop_def json_formats_def
        text_formats_def blob_formats_def)
  show ?thesis
    using c r f unrecognized_format_resolves_undefined [OF c r f]
    by (simp add: run_defs)
qed

text \<open>
  C8. The query-string encoder of the specification round-trips: for every parameter mapping,
  decoding the encoded string gives back the scalar key/value pairs of the mapping; for a
  mapping of strings these are the mapping itself.
\<close>

theorem query_string_round_trip:
  "decode_query (spec_encodeQueryString p) = Some (query_pairs p)
   \<and> decode_query (spec_encodeQueryString (map (\<lambda>(k, s). (k, JStr s)) kvs)) = Some kvs"
  by (simp add: spec_encodeQueryString_def decode_query_join query_pairs_strings)

theorem query_string_round_trip_witness:
  "spec_encodeQueryString [(''q'', JStr ''a&b=c d''), (''ids'', JArr [JNum 12, JNum (- 3)])]
     = ''q=a%26b%3Dc%20d&ids=12&ids=-3''
   \<and> decode_query ''q=a%26b%3Dc%20d&ids=12&ids=-3'' =
       Some [(''q'', ''a&b=c d''), (''ids'', ''12''), (''ids'', ''-3'')]"
proof -
  let ?p = "[(''q'', JStr ''a&b=c d''), (''ids'', JArr [JNum 12, JNum (- 3)])]"
  have e: "spec_encodeQueryString ?p = ''q=a%26b%3Dc%20d&ids=12&ids=-3''"
    by code_simp
  have q: "query_pairs ?p = [(''q'', ''a&b=c d''), (''ids'', ''12''), (''ids'', ''-3'')]"
    by code_simp
  show ?thesis
    using query_string_round_trip [of ?p "[]"] by (simp add: e q)
qed

text \<open>
  C9. \<^verbatim>\<open>generateToken\<close> of the specification, with the form-data encoder of the
  specification, issues exactly one network call: a POST to the given URL whose form holds
  \<open>f = json\<close>, the user name and the password. When that call is answered with a JSON object
  that passes the error check, \<^verbatim>\<open>generateToken\<close> resolves with that object, so with its
  \<open>token\<close> and \<open>expires\<close>.
\<close>

theorem generateToken_posts_credentials:
  assumes "encodeFormData d = spec_encodeFormData stringify"
  shows "fetch_calls (fst (spec_generateToken d url creds)) =
           [(url, \<lparr>init_method = Some POST,
                   body = Some [(''f'', StringPart ''json''),
                                (''username'', StringPart (username creds)),
                                (''password'', StringPart (password creds))]\<rparr>)]
       \<and> (fetch d url \<lparr>init_method = Some POST,
                   body = Some [(''f'', StringPart ''json''),
                                (''username'', StringPart (username creds)),
                                (''password'', StringPart (password creds))]\<rparr> = Inr resp
          \<and> response_json resp = Inr (JObj res)
          \<and> checkForErrors d (JObj res) = None
          \<longrightarrow> snd (spec_generateToken d url creds) = Inr (JObj res))"
proof -
  let ?rp = "Some [(''username'', JStr (username creds)), (''password'', JStr (password creds))]"
  let ?i = "\<lparr>init_method = Some POST,
                   body = Some [(''f'', StringPart ''json''),
                                (''username'', StringPart (username creds)),
                                (''password'', StringPart (password creds))]\<rparr>"
  have t: "snd (tokenRequest (merged_authentication None) url) = Inr ''''"
    by (simp add: tokenRequest_def merged_authentication_def)
  have ps: "merged_params ?rp =
      [(''f'', JStr ''json''), (''username'', JStr (username creds)),
       (''password'', JStr (password creds))]"
    by (simp add: merged_params_def set_prop_def)
  have c: "fetch_calls (fst (request d url ?rp None)) = [(url, ?i)]"
    using assms
    by (simp add: fetch_calls_request_resolved[OF t] ps sent_url_def sent_init_def
        inject_token_def merged_httpMethod_def spec_encodeFormData_def)
  have r: "snd (request d url ?rp None) = Inr (JObj res)"
    if "fetch d url ?i = Inr resp" "response_json resp = Inr (JObj res)"
      "checkForErrors d (JObj res) = None"
  proof -
    from that(2) have dec: "snd (decode (get_prop (merged_params ?rp) ''f'') resp) = Inr (JObj res)"
      by (simp add: ps get_prop_def decode_def)
    from request_received(3)[OF c that(1) dec] that(3) show ?thesis
      by (simp add: ps get_prop_def validate_def)
  qed
  from c r show ?thesis
    by (simp add: spec_generateToken_def)
qed

theorem generateToken_posts_credentials_witness:
  "encodeFormData token_deps = spec_encodeFormData (\<lambda>v. ''{}'')
   \<and> spec_generateToken token_deps TOKEN_URL \<lparr>username = ''Casey'', password = ''Jones''\<rparr> =
       ([EncodeFormData [(''f'', JStr ''json''), (''username'', JStr ''Casey''),
                         (''password'', JStr ''Jones'')],
         Fetch TOKEN_URL \<lparr>init_method = Some POST,
                   body = Some [(''f'', StringPart ''json''),
                                (''username'', StringPart ''Casey''),
                                (''password'', StringPart ''Jones'')]\<rparr>,
         ReadJson,
         CheckForErrors (JObj token_body)],
        Inr (JObj token_body))
   \<and> get_prop token_body ''token'' = JStr ''token''
   \<and> get_prop token_body ''expires'' = JNum 1500000000000"
proof -
  have e: "encodeFormData token_deps = spec_encodeFormData (\<lambda>v. ''{}'')"
    by (simp add: token_deps_def)
  show ?thesis
    using e generateToken_posts_credentials [OF e, of TOKEN_URL
        "\<lparr>username = ''Casey'', password = ''Jones''\<rparr>"
        "\<lparr>response_json = Inr (JObj token_body),
          response_text = Inl (Failure ''body used''),
          response_blob = Inl (Failure ''body used'')\<rparr>" token_body]
    by (simp add: spec_generateToken_def run_defs token_deps_def spec_encodeFormData_def
        spec_checkForErrors_def token_body_def)
qed

text \<open>
  C10. With a provider whose token request resolves to the empty string, \<^verbatim>\<open>request\<close> does
  what it does with no provider and the same method, after the token request: the same
  parameters are encoded, the same network call is issued, the result is the same.
\<close>

theorem empty_token_same_as_no_provider:
  assumes "merged_authentication ro = Some a"
    and "getToken a url = Inr ''''"
    and "merged_authentication ro' = None"
    and "merged_httpMethod ro' = merged_httpMethod ro"
  shows "request d url rp ro =
           (GetToken url # fst (request d url rp ro'), snd (request d url rp ro'))
       \<and> fetch_calls (fst (request d url rp ro)) = fetch_calls (fst (request d url rp ro'))
       \<and> encoded_params (fst (request d url rp ro)) = encoded_params (fst (request d url rp ro'))"
proof -
  from assms(1,2) have t: "snd (tokenRequest (merged_authentication ro) url) = Inr ''''"
    by (simp add: tokenRequest_def)
  from assms(3) have t': "snd (tokenRequest (merged_authentication ro') url) = Inr ''''"
    by (simp add: tokenRequest_def)
  have "request d url rp ro =
           (GetToken url # fst (request d url rp ro'), snd (request d url rp ro'))"
    using assms by (simp add: request_resolved[OF t] request_resolved[OF t'] tokenRequest_def)
  then show ?thesis by simp
qed

theorem empty_token_same_as_no_provider_witness:
  "merged_authentication (Some \<lparr>httpMethod = Given GET,
       authentication = Given (mock_auth (Inr ''''))\<rparr>) = Some (mock_auth (Inr ''''))
   \<and> getToken (mock_auth (Inr '''')) ''u'' = Inr ''''
   \<and> merged_authentication (Some \<lparr>httpMethod = Given GET, authentication = Absent\<rparr>) = None
   \<and> merged_httpMethod (Some \<lparr>httpMethod = Given GET, authentication = Absent\<rparr>) =
       merged_httpMethod (Some \<lparr>httpMethod = Given GET,
         authentication = Given (mock_auth (Inr ''''))\<rparr>)
   \<and> fetch_calls (fst (request mock_deps ''u'' None
        (Some \<lparr>httpMethod = Given GET, authentication = Given (mock_auth (Inr ''''))\<rparr>))) =
       [(''u?f'', \<lparr>init_method = Some GET, body = None\<rparr>)]
   \<and> fetch_calls (fst (request mock_deps ''u'' None
        (Some \<lparr>httpMethod = Given GET, authentication = Absent\<rparr>))) =
       [(''u?f'', \<lparr>init_method = Some GET, body = None\<rparr>)]"
  using empty_token_same_as_no_provider [of
      "Some \<lparr>httpMethod = Given GET, authentication = Given (mock_auth (Inr ''''))\<rparr>"
      "mock_auth (Inr '''')" "''u''"
      "Some \<lparr>httpMethod = Given GET, authentication = Absent\<rparr>" mock_deps None]
  by (simp add: run_defs)

end
